theory Spec2Isabelle
  imports Main
begin

section \<open>JavaScript values\<close>

text \<open>
  The request body is parsed JSON. A field of the body that the handlers read is absent
  (\<open>undefined\<close>), \<open>null\<close>, a number or a string. Numbers are kept as integers; JSON
  booleans, arrays and objects are outside this model. The same type gives the values of
  the objects that the create and update handlers build as their payload.
\<close>

datatype jsval = JUndefined | JNull | JNum int | JStr string

text \<open>The truth value JavaScript gives to a value in \<open>!v\<close>, \<open>v || w\<close> and \<open>if (v)\<close>.\<close>

fun truthy :: "jsval \<Rightarrow> bool" where
  "truthy JUndefined = False"
| "truthy JNull = False"
| "truthy (JNum n) = (n \<noteq> 0)"
| "truthy (JStr s) = (s \<noteq> [])"

text \<open>The expression \<open>v || null\<close>.\<close>

definition or_null :: "jsval \<Rightarrow> jsval" where
  "or_null v = (if truthy v then v else JNull)"

text \<open>\<open>s.includes(t)\<close>: \<open>t\<close> occurs in \<open>s\<close> as a contiguous run.\<close>

fun str_includes :: "string \<Rightarrow> string \<Rightarrow> bool" where
  "str_includes [] t = (t = [])"
| "str_includes (c # cs) t = (take (length t) (c # cs) = t \<or> str_includes cs t)"

subsection \<open>The global function isNaN on a string\<close>

text \<open>
  \<open>isNaN(s)\<close> converts the string to a number and tests the result for NaN. The conversion
  strips white space at both ends; an empty rest is the number 0; otherwise the rest has to
  be a signed decimal literal (digits with an optional fraction and exponent, or
  \<open>Infinity\<close>) or an unsigned literal in base 16, 8 or 2. Path parameters are modelled as
  strings of 8-bit characters, so the white space characters are those below.
\<close>

definition is_space :: "char \<Rightarrow> bool" where
  "is_space c = (c \<in> set [CHR 0x09, CHR 0x0A, CHR 0x0B, CHR 0x0C, CHR 0x0D, CHR 0x20, CHR 0xA0])"

definition is_digit :: "char \<Rightarrow> bool" where
  "is_digit c = (c \<in> set ''0123456789'')"

definition is_hex_digit :: "char \<Rightarrow> bool" where
  "is_hex_digit c = (c \<in> set ''0123456789abcdefABCDEF'')"

definition is_octal_digit :: "char \<Rightarrow> bool" where
  "is_octal_digit c = (c \<in> set ''01234567'')"

definition is_binary_digit :: "char \<Rightarrow> bool" where
  "is_binary_digit c = (c \<in> set ''01'')"

definition trim :: "string \<Rightarrow> string" where
  "trim s = rev (dropWhile is_space (rev (dropWhile is_space s)))"

definition DecimalDigits :: "string \<Rightarrow> bool" where
  "DecimalDigits s = (s \<noteq> [] \<and> list_all is_digit s)"

definition ExponentPart :: "string \<Rightarrow> bool" where
  "ExponentPart s =
     (case s of
        [] \<Rightarrow> False
      | c # r \<Rightarrow>
          (c = CHR ''e'' \<or> c = CHR ''E'') \<and>
          (case r of
             [] \<Rightarrow> False
           | d # r' \<Rightarrow> if d = CHR ''+'' \<or> d = CHR ''-'' then DecimalDigits r' else DecimalDigits r))"

definition StrUnsignedDecimalLiteral :: "string \<Rightarrow> bool" where
  "StrUnsignedDecimalLiteral s =
     (s = ''Infinity'' \<or>
      (let ip = takeWhile is_digit s; r = dropWhile is_digit s in
       case r of
         [] \<Rightarrow> ip \<noteq> []
       | c # r' \<Rightarrow>
           if c = CHR ''.''
           then (let fp = takeWhile is_digit r'; r'' = dropWhile is_digit r' in
                 (ip \<noteq> [] \<or> fp \<noteq> []) \<and> (r'' = [] \<or> ExponentPart r''))
           else ip \<noteq> [] \<and> ExponentPart r))"

definition StrDecimalLiteral :: "string \<Rightarrow> bool" where
  "StrDecimalLiteral s =
     (case s of
        [] \<Rightarrow> False
      | c # r \<Rightarrow>
          if c = CHR ''+'' \<or> c = CHR ''-'' then StrUnsignedDecimalLiteral r
          else StrUnsignedDecimalLiteral s)"

definition NonDecimalIntegerLiteral :: "string \<Rightarrow> bool" where
  "NonDecimalIntegerLiteral s =
     (case s of
        a # b # r \<Rightarrow>
          a = CHR ''0'' \<and> r \<noteq> [] \<and>
          ((b = CHR ''x'' \<or> b = CHR ''X'') \<and> list_all is_hex_digit r \<or>
           (b = CHR ''o'' \<or> b = CHR ''O'') \<and> list_all is_octal_digit r \<or>
           (b = CHR ''b'' \<or> b = CHR ''B'') \<and> list_all is_binary_digit r)
      | _ \<Rightarrow> False)"

definition isNaN :: "string \<Rightarrow> bool" where
  "isNaN s =
     (let t = trim s in
      t \<noteq> [] \<and> \<not> StrDecimalLiteral t \<and> \<not> NonDecimalIntegerLiteral t)"

section \<open>The contacts table\<close>

text \<open>
  A column holds NULL, a number or a text. \<open>SNumeric n\<close> stands for what the engine keeps
  when the number \<open>n\<close> is bound to the column. The creation time, the text that
  \<open>CURRENT_TIMESTAMP\<close> gives with a resolution of one second, is modelled by the number of
  that second: the texts have one fixed format, so they are ordered as the seconds are.
\<close>

datatype sqlval = SNull | SNumeric int | SText string

record contact =
  cid :: int
  cname :: sqlval
  cphone :: sqlval
  cemail :: sqlval
  caddress :: sqlval
  created_at :: nat

text \<open>
  The table in the order of its row identifiers, and the largest identifier the table has
  ever given out, which \<open>AUTOINCREMENT\<close> keeps.
\<close>

record database =
  contacts :: "contact list"
  seq :: int

text \<open>An exception of the database driver, with its message.\<close>

datatype exn = Exn (message: string)

text \<open>What \<open>run\<close> returns.\<close>

record run_info =
  changes :: nat
  lastInsertRowid :: int

text \<open>
  Two things of a storage call are decided outside the source and are taken as parameters.
  \<^item> Whether the call throws: \<open>fault = Some m\<close> makes the one storage call of the request
    throw an exception with message \<open>m\<close> (a locked or full database, an input or output
    error, a constraint of a table that an earlier version created); a statement that
    throws changes nothing.
  \<^item> Which row identifier the engine reads from the text bound to \<open>id = ?\<close>: \<open>co s\<close> is
    that integer, or \<open>None\<close> when the text compares equal to no integer.
\<close>

type_synonym fault = "string option"

type_synonym coercion = "string \<Rightarrow> int option"

text \<open>How the driver binds a value: \<open>null\<close> and \<open>undefined\<close> as NULL.\<close>

fun bind :: "jsval \<Rightarrow> sqlval" where
  "bind JUndefined = SNull"
| "bind JNull = SNull"
| "bind (JNum n) = SNumeric n"
| "bind (JStr s) = SText s"

definition matches :: "coercion \<Rightarrow> string \<Rightarrow> contact \<Rightarrow> bool" where
  "matches co i c = (co i = Some (cid c))"

text \<open>
  \<open>SELECT * FROM contacts ORDER BY created_at DESC\<close>, all rows. The engine sorts the
  rows of the table scan by the key alone, and rows with equal keys stay in scan order.
\<close>

definition select_all :: "fault \<Rightarrow> database \<Rightarrow> exn + contact list" where
  "select_all fault db =
     (case fault of
        Some m \<Rightarrow> Inl (Exn m)
      | None \<Rightarrow> Inr (sort_key (\<lambda>c. - int (created_at c)) (contacts db)))"

text \<open>\<open>SELECT * FROM contacts WHERE id = ?\<close>, the first row or \<open>undefined\<close>.\<close>

definition select_by_id :: "coercion \<Rightarrow> fault \<Rightarrow> database \<Rightarrow> string \<Rightarrow> exn + contact option" where
  "select_by_id co fault db i =
     (case fault of
        Some m \<Rightarrow> Inl (Exn m)
      | None \<Rightarrow> Inr (find (matches co i) (contacts db)))"

text \<open>The identifier \<open>AUTOINCREMENT\<close> assigns: one more than the largest ever used.\<close>

definition next_rowid :: "database \<Rightarrow> int" where
  "next_rowid db = fold max (map cid (contacts db)) (seq db) + 1"

definition new_row :: "database \<Rightarrow> nat \<Rightarrow> sqlval \<Rightarrow> sqlval \<Rightarrow> sqlval \<Rightarrow> sqlval \<Rightarrow> contact" where
  "new_row db now n p e a =
     \<lparr>cid = next_rowid db, cname = n, cphone = p, cemail = e, caddress = a, created_at = now\<rparr>"

text \<open>
  \<open>INSERT INTO contacts (name, phone, email, address) VALUES (?, ?, ?, ?)\<close> at the clock
  second \<open>now\<close>. The columns name and phone are declared \<open>NOT NULL\<close>.
\<close>

definition insert_row ::
  "fault \<Rightarrow> nat \<Rightarrow> database \<Rightarrow> sqlval \<Rightarrow> sqlval \<Rightarrow> sqlval \<Rightarrow> sqlval \<Rightarrow> exn + (run_info \<times> database)" where
  "insert_row fault now db n p e a =
     (case fault of
        Some m \<Rightarrow> Inl (Exn m)
      | None \<Rightarrow>
          if n = SNull then Inl (Exn ''NOT NULL constraint failed: contacts.name'')
          else if p = SNull then Inl (Exn ''NOT NULL constraint failed: contacts.phone'')
          else Inr (\<lparr>changes = 1, lastInsertRowid = next_rowid db\<rparr>,
                    \<lparr>contacts = contacts db @ [new_row db now n p e a], seq = next_rowid db\<rparr>))"

text \<open>\<open>UPDATE contacts SET name = ?, phone = ?, email = ?, address = ? WHERE id = ?\<close>.\<close>

definition update_row ::
  "coercion \<Rightarrow> fault \<Rightarrow> database \<Rightarrow> sqlval \<Rightarrow> sqlval \<Rightarrow> sqlval \<Rightarrow> sqlval \<Rightarrow> string \<Rightarrow>
     exn + (run_info \<times> database)" where
  "update_row co fault db n p e a i =
     (case fault of
        Some m \<Rightarrow> Inl (Exn m)
      | None \<Rightarrow>
          if filter (matches co i) (contacts db) = []
          then Inr (\<lparr>changes = 0, lastInsertRowid = seq db\<rparr>, db)
          else if n = SNull then Inl (Exn ''NOT NULL constraint failed: contacts.name'')
          else if p = SNull then Inl (Exn ''NOT NULL constraint failed: contacts.phone'')
          else Inr (\<lparr>changes = length (filter (matches co i) (contacts db)),
                     lastInsertRowid = seq db\<rparr>,
                    db\<lparr>contacts :=
                         map (\<lambda>c. if matches co i c
                                  then c\<lparr>cname := n, cphone := p, cemail := e, caddress := a\<rparr>
                                  else c)
                             (contacts db)\<rparr>))"

text \<open>\<open>DELETE FROM contacts WHERE id = ?\<close>.\<close>

definition delete_row :: "coercion \<Rightarrow> fault \<Rightarrow> database \<Rightarrow> string \<Rightarrow> exn + (run_info \<times> database)" where
  "delete_row co fault db i =
     (case fault of
        Some m \<Rightarrow> Inl (Exn m)
      | None \<Rightarrow>
          Inr (\<lparr>changes = length (filter (matches co i) (contacts db)),
                lastInsertRowid = seq db\<rparr>,
               db\<lparr>contacts := filter (\<lambda>c. \<not> matches co i c) (contacts db)\<rparr>))"

section \<open>The response envelope\<close>

definition SUCCESS :: int where "SUCCESS = 0"
definition VALIDATION_ERROR :: int where "VALIDATION_ERROR = 1"
definition NOT_FOUND :: int where "NOT_FOUND = 2"
definition DATABASE_ERROR :: int where "DATABASE_ERROR = 3"
definition NETWORK_ERROR :: int where "NETWORK_ERROR = - 1"

definition REQUIRED_FIELD_MISSING :: string where
  "REQUIRED_FIELD_MISSING = ''Required field is missing''"
definition EMAIL_ALREADY_EXISTS :: string where
  "EMAIL_ALREADY_EXISTS = ''Email already exists in the system''"
definition CONTACT_NOT_FOUND :: string where
  "CONTACT_NOT_FOUND = ''Contact not found''"
definition INVALID_CONTACT_ID :: string where
  "INVALID_CONTACT_ID = ''Invalid contact ID provided''"
definition CONTACT_CREATED :: string where
  "CONTACT_CREATED = ''Contact created successfully''"
definition CONTACT_UPDATED :: string where
  "CONTACT_UPDATED = ''Contact updated successfully''"
definition CONTACT_DELETED :: string where
  "CONTACT_DELETED = ''Contact deleted successfully''"
definition DATA_RETRIEVAL_FAILED :: string where
  "DATA_RETRIEVAL_FAILED = ''Failed to retrieve data''"
definition DATA_SAVE_FAILED :: string where
  "DATA_SAVE_FAILED = ''Failed to save data''"
definition DATA_UPDATE_FAILED :: string where
  "DATA_UPDATE_FAILED = ''Failed to update data''"
definition DATA_DELETE_FAILED :: string where
  "DATA_DELETE_FAILED = ''Failed to delete data''"

text \<open>
  The payload of a response: the rows of a query as the driver returns them, or an object
  that a handler builds, as its fields in the order they are written.
\<close>

datatype payload = Rows "contact list" | Row contact | Obj "(string \<times> jsval) list"

text \<open>
  The JSON object sent: \<open>msg\<close> is a string or \<open>null\<close>, and \<open>data = None\<close> says that the
  object has no field \<open>data\<close>.
\<close>

record response =
  code :: int
  msg :: "string option"
  data :: "payload option"

text \<open>\<open>sendResponse(res, code, msg, data = null)\<close>; \<open>None\<close> is \<open>null\<close>.\<close>

definition sendResponse :: "int \<Rightarrow> string option \<Rightarrow> payload option \<Rightarrow> response" where
  "sendResponse c m d =
     (let response = \<lparr>code = c, msg = m, data = None\<rparr> in
      if d \<noteq> None then response\<lparr>data := d\<rparr> else response)"

definition validateContactInput :: "jsval \<Rightarrow> jsval \<Rightarrow> string option" where
  "validateContactInput name phone =
     (if \<not> truthy name \<or> \<not> truthy phone then Some REQUIRED_FIELD_MISSING else None)"

section \<open>The handlers\<close>

text \<open>
  A handler takes the parameters of the storage call, the request and the database, and
  returns the response with the database after it. The log is not modelled.
\<close>

record body =
  name :: jsval
  phone :: jsval
  email :: jsval
  address :: jsval

text \<open>\<open>error.message && error.message.includes('UNIQUE constraint failed')\<close>\<close>

definition unique_violation :: "exn \<Rightarrow> bool" where
  "unique_violation e = (message e \<noteq> [] \<and> str_includes (message e) ''UNIQUE constraint failed'')"

text \<open>\<open>GET /api/health\<close>\<close>

definition get_health :: response where
  "get_health = sendResponse SUCCESS None None"

text \<open>\<open>GET /api/contacts\<close>\<close>

definition get_contacts :: "fault \<Rightarrow> database \<Rightarrow> response \<times> database" where
  "get_contacts fault db =
     (case select_all fault db of
        Inr rows \<Rightarrow> (sendResponse SUCCESS None (Some (Rows rows)), db)
      | Inl error \<Rightarrow> (sendResponse DATABASE_ERROR (Some DATA_RETRIEVAL_FAILED) None, db))"

text \<open>\<open>POST /api/contacts\<close>\<close>

definition post_contacts :: "fault \<Rightarrow> nat \<Rightarrow> body \<Rightarrow> database \<Rightarrow> response \<times> database" where
  "post_contacts fault now b db =
     (case validateContactInput (name b) (phone b) of
        Some validationError \<Rightarrow> (sendResponse VALIDATION_ERROR (Some validationError) None, db)
      | None \<Rightarrow>
          (case insert_row fault now db (bind (name b)) (bind (phone b))
                  (bind (or_null (email b))) (bind (or_null (address b))) of
             Inr (result, db') \<Rightarrow>
               (sendResponse SUCCESS (Some CONTACT_CREATED)
                  (Some (Obj [(''id'', JNum (lastInsertRowid result)),
                              (''name'', name b),
                              (''phone'', phone b),
                              (''email'', or_null (email b)),
                              (''address'', or_null (address b))])),
                db')
           | Inl error \<Rightarrow>
               if unique_violation error
               then (sendResponse VALIDATION_ERROR (Some EMAIL_ALREADY_EXISTS) None, db)
               else (sendResponse DATABASE_ERROR (Some DATA_SAVE_FAILED) None, db)))"

text \<open>\<open>GET /api/contacts/:id\<close>\<close>

definition get_contact :: "coercion \<Rightarrow> fault \<Rightarrow> string \<Rightarrow> database \<Rightarrow> response \<times> database" where
  "get_contact co fault i db =
     (case select_by_id co fault db i of
        Inr (Some contact) \<Rightarrow> (sendResponse SUCCESS None (Some (Row contact)), db)
      | Inr None \<Rightarrow>
          (sendResponse NOT_FOUND (Some (CONTACT_NOT_FOUND @ '' (ID: '' @ i @ '')'')) None, db)
      | Inl error \<Rightarrow>
          if isNaN i
          then (sendResponse VALIDATION_ERROR (Some INVALID_CONTACT_ID) None, db)
          else (sendResponse DATABASE_ERROR (Some DATA_RETRIEVAL_FAILED) None, db))"

text \<open>\<open>PUT /api/contacts/:id\<close>\<close>

definition put_contact ::
  "coercion \<Rightarrow> fault \<Rightarrow> string \<Rightarrow> body \<Rightarrow> database \<Rightarrow> response \<times> database" where
  "put_contact co fault i b db =
     (case validateContactInput (name b) (phone b) of
        Some validationError \<Rightarrow> (sendResponse VALIDATION_ERROR (Some validationError) None, db)
      | None \<Rightarrow>
          (case update_row co fault db (bind (name b)) (bind (phone b))
                  (bind (or_null (email b))) (bind (or_null (address b))) i of
             Inr (result, db') \<Rightarrow>
               if changes result > 0
               then (sendResponse SUCCESS (Some CONTACT_UPDATED)
                       (Some (Obj [(''id'', JStr i),
                                   (''name'', name b),
                                   (''phone'', phone b),
                                   (''email'', or_null (email b)),
                                   (''address'', or_null (address b))])),
                     db')
               else (sendResponse NOT_FOUND (Some CONTACT_NOT_FOUND) None, db')
           | Inl error \<Rightarrow>
               if unique_violation error
               then (sendResponse VALIDATION_ERROR (Some EMAIL_ALREADY_EXISTS) None, db)
               else (sendResponse DATABASE_ERROR (Some DATA_UPDATE_FAILED) None, db)))"

text \<open>\<open>DELETE /api/contacts/:id\<close>\<close>

definition delete_contact :: "coercion \<Rightarrow> fault \<Rightarrow> string \<Rightarrow> database \<Rightarrow> response \<times> database" where
  "delete_contact co fault i db =
     (case delete_row co fault db i of
        Inr (result, db') \<Rightarrow>
          if changes result > 0
          then (sendResponse SUCCESS (Some CONTACT_DELETED) None, db')
          else (sendResponse NOT_FOUND (Some (CONTACT_NOT_FOUND @ '' (ID: '' @ i @ '')'')) None, db')
      | Inl error \<Rightarrow>
          if isNaN i
          then (sendResponse VALIDATION_ERROR (Some INVALID_CONTACT_ID) None, db)
          else (sendResponse DATABASE_ERROR (Some DATA_DELETE_FAILED) None, db))"

section \<open>Sample data\<close>

text \<open>
  One coercion, used where a concrete one is needed: a text of decimal digits only is read
  as the number it writes, and every other text as no row identifier. The engine agrees
  with it on those texts.
\<close>

definition digit_value :: "char \<Rightarrow> nat" where
  "digit_value c = of_char c - 48"

definition decimal_rowid :: coercion where
  "decimal_rowid s =
     (if DecimalDigits s then Some (int (foldl (\<lambda>a c. 10 * a + digit_value c) 0 s)) else None)"

definition empty_db :: database where
  "empty_db = \<lparr>contacts = [], seq = 0\<rparr>"

definition john :: body where
  "john = \<lparr>name = JStr ''John'', phone = JStr ''123'', email = JUndefined, address = JStr ''''\<rparr>"

definition jane :: body where
  "jane = \<lparr>name = JStr ''Jane'', phone = JStr ''456'', email = JStr ''jane@example.com'',
           address = JNull\<rparr>"

definition joe :: body where
  "joe = \<lparr>name = JStr ''Joe'', phone = JStr ''789'', email = JStr '''', address = JUndefined\<rparr>"

definition no_name :: body where
  "no_name = \<lparr>name = JStr '''', phone = JStr ''123'', email = JUndefined, address = JUndefined\<rparr>"

definition one_contact_db :: database where
  "one_contact_db = snd (post_contacts None 100 john empty_db)"

text \<open>Three contacts created within one second of the clock.\<close>

definition same_second_db :: database where
  "same_second_db =
     snd (post_contacts None 100 joe
       (snd (post_contacts None 100 jane
         (snd (post_contacts None 100 john empty_db)))))"

section \<open>Reading a response\<close>

text \<open>
  \<open>response.data[k]\<close> for a payload that a handler built as an object: the value of the
  field, or \<open>None\<close> where the object has no such field.
\<close>

definition data_field :: "string \<Rightarrow> response \<Rightarrow> jsval option" where
  "data_field k r = (case data r of Some (Obj kv) \<Rightarrow> map_of kv k | _ \<Rightarrow> None)"

text \<open>The row that a create request with body \<open>b\<close> inserts at the second \<open>now\<close>.\<close>

abbreviation stored :: "database \<Rightarrow> nat \<Rightarrow> body \<Rightarrow> contact" where
  "stored db now b \<equiv>
     new_row db now (bind (name b)) (bind (phone b)) (bind (or_null (email b)))
       (bind (or_null (address b)))"

section \<open>Unfolding the model\<close>

lemmas code_defs = SUCCESS_def VALIDATION_ERROR_def NOT_FOUND_def DATABASE_ERROR_def

lemmas msg_defs = REQUIRED_FIELD_MISSING_def EMAIL_ALREADY_EXISTS_def CONTACT_NOT_FOUND_def
  INVALID_CONTACT_ID_def CONTACT_CREATED_def CONTACT_UPDATED_def CONTACT_DELETED_def
  DATA_RETRIEVAL_FAILED_def DATA_SAVE_FAILED_def DATA_UPDATE_FAILED_def DATA_DELETE_FAILED_def

lemmas store_defs = select_all_def select_by_id_def insert_row_def update_row_def delete_row_def
  next_rowid_def new_row_def matches_def

lemmas handler_defs = get_health_def get_contacts_def post_contacts_def get_contact_def
  put_contact_def delete_contact_def sendResponse_def validateContactInput_def or_null_def

lemmas isNaN_defs = isNaN_def trim_def is_space_def is_digit_def is_hex_digit_def
  is_octal_digit_def is_binary_digit_def DecimalDigits_def ExponentPart_def
  StrUnsignedDecimalLiteral_def StrDecimalLiteral_def NonDecimalIntegerLiteral_def

lemmas sample_defs = empty_db_def john_def jane_def joe_def no_name_def decimal_rowid_def
  digit_value_def one_contact_db_def

section \<open>Each handler, path by path\<close>

lemma bind_truthy: "truthy v \<Longrightarrow> bind v \<noteq> SNull"
  by (cases v) simp_all

lemma find_no_match: "filter P xs = [] \<Longrightarrow> find P xs = None"
  by (induction xs) (auto split: if_splits)

lemma filter_no_match: "filter P xs = [] \<Longrightarrow> filter (\<lambda>x. \<not> P x) xs = xs"
  by (induction xs) (auto split: if_splits)

lemma get_contacts_ok:
  "get_contacts None db =
     (\<lparr>code = 0, msg = None,
       data = Some (Rows (sort_key (\<lambda>c. - int (created_at c)) (contacts db)))\<rparr>, db)"
  by (simp add: get_contacts_def select_all_def sendResponse_def code_defs)

lemma post_contacts_ok:
  assumes "truthy (name b)" and "truthy (phone b)"
  shows "post_contacts None now b db =
     (\<lparr>code = 0, msg = Some ''Contact created successfully'',
       data = Some (Obj [(''id'', JNum (next_rowid db)), (''name'', name b),
                         (''phone'', phone b), (''email'', or_null (email b)),
                         (''address'', or_null (address b))])\<rparr>,
      \<lparr>contacts = contacts db @ [stored db now b], seq = next_rowid db\<rparr>)"
  using assms
  by (simp add: post_contacts_def validateContactInput_def insert_row_def sendResponse_def
      bind_truthy code_defs msg_defs)

lemma post_contacts_invalid:
  assumes "\<not> truthy (name b) \<or> \<not> truthy (phone b)"
  shows "post_contacts fault now b db =
     (\<lparr>code = 1, msg = Some ''Required field is missing'', data = None\<rparr>, db)"
  using assms
  by (auto simp add: post_contacts_def validateContactInput_def sendResponse_def
      code_defs msg_defs)

lemma put_contact_invalid:
  assumes "\<not> truthy (name b) \<or> \<not> truthy (phone b)"
  shows "put_contact co fault i b db =
     (\<lparr>code = 1, msg = Some ''Required field is missing'', data = None\<rparr>, db)"
  using assms
  by (auto simp add: put_contact_def validateContactInput_def sendResponse_def
      code_defs msg_defs)

lemma put_contact_ok:
  assumes "truthy (name b)" and "truthy (phone b)"
    and "filter (matches co i) (contacts db) \<noteq> []"
  shows "put_contact co None i b db =
     (\<lparr>code = 0, msg = Some ''Contact updated successfully'',
       data = Some (Obj [(''id'', JStr i), (''name'', name b),
                         (''phone'', phone b), (''email'', or_null (email b)),
                         (''address'', or_null (address b))])\<rparr>,
      db\<lparr>contacts :=
           map (\<lambda>c. if matches co i c
                    then c\<lparr>cname := bind (name b), cphone := bind (phone b),
                           cemail := bind (or_null (email b)),
                           caddress := bind (or_null (address b))\<rparr>
                    else c)
               (contacts db)\<rparr>)"
  using assms
  by (simp add: put_contact_def validateContactInput_def update_row_def sendResponse_def
      bind_truthy code_defs msg_defs)

lemma put_contact_missing:
  assumes "truthy (name b)" and "truthy (phone b)"
    and "filter (matches co i) (contacts db) = []"
  shows "put_contact co None i b db =
     (\<lparr>code = 2, msg = Some ''Contact not found'', data = None\<rparr>, db)"
  using assms
  by (simp add: put_contact_def validateContactInput_def update_row_def sendResponse_def
      code_defs msg_defs)

lemma get_contact_missing:
  assumes "filter (matches co i) (contacts db) = []"
  shows "get_contact co None i db =
     (\<lparr>code = 2, msg = Some (''Contact not found (ID: '' @ i @ '')''), data = None\<rparr>, db)"
  using assms
  by (simp add: get_contact_def select_by_id_def find_no_match sendResponse_def
      code_defs msg_defs)

lemma delete_contact_missing:
  assumes "filter (matches co i) (contacts db) = []"
  shows "delete_contact co None i db =
     (\<lparr>code = 2, msg = Some (''Contact not found (ID: '' @ i @ '')''), data = None\<rparr>, db)"
  using assms
  by (simp add: delete_contact_def delete_row_def filter_no_match sendResponse_def
      code_defs msg_defs)

section \<open>Get by identifier with a non-numeric identifier\<close>

text \<open>
  Claim C1: a get-by-identifier request whose identifier is non-numeric gets a validation
  failure (code 1), not a not-found response. The handler tests \<open>isNaN\<close> only after the
  storage call has thrown. The identifier \<open>abc\<close> is not a number, the query binds it as a
  text and finds no row without throwing, and the answer is the not-found failure with
  code 2.
\<close>

theorem get_contact_non_numeric_id:
  "isNaN ''abc'' \<and>
   get_contact decimal_rowid None ''abc'' one_contact_db =
     (\<lparr>code = 2, msg = Some ''Contact not found (ID: abc)'', data = None\<rparr>, one_contact_db)"
  by (simp add: isNaN_defs get_contact_missing sample_defs post_contacts_ok store_defs)

section \<open>The order of the list\<close>

lemma insort_key_front:
  fixes f :: "'a \<Rightarrow> int"
  shows "\<forall>y\<in>set xs. f z < f y \<Longrightarrow>
     foldr (insort_key f) xs (z # zs) = z # foldr (insort_key f) xs zs"
  by (induction xs) auto

lemma sort_three_then_older:
  fixes f :: "'a \<Rightarrow> int"
  assumes "\<forall>y\<in>set xs. f a < f y" and "f b < f a" and "f c < f b"
  shows "sort_key f (xs @ [a, b, c]) = c # b # a # sort_key f xs"
proof -
  have older: "\<forall>y\<in>set xs. f b < f y" "\<forall>y\<in>set xs. f c < f y"
    using assms by fastforce+
  have "sort_key f (xs @ [a, b, c]) = foldr (insort_key f) xs [c, b, a]"
    using assms(2,3) by (simp add: sort_key_def)
  also have "\<dots> = c # foldr (insort_key f) xs [b, a]"
    using older(2) by (rule insort_key_front)
  also have "foldr (insort_key f) xs [b, a] = b # foldr (insort_key f) xs [a]"
    using older(1) by (rule insort_key_front)
  also have "foldr (insort_key f) xs [a] = a # foldr (insort_key f) xs []"
    using assms(1) by (rule insort_key_front)
  finally show ?thesis by (simp add: sort_key_def)
qed

text \<open>
  Claim C2, amended: when contacts A, B and C are created in this order at three clock
  seconds that strictly increase, each later than the creation time of every row already
  stored, the list that follows returns all stored contacts, C, B and A first in this
  order and then the older rows by creation time, most recent first.
\<close>

theorem list_most_recent_first:
  assumes valid: "truthy (name a)" "truthy (phone a)" "truthy (name b)" "truthy (phone b)"
      "truthy (name c)" "truthy (phone c)"
    and older: "\<forall>r\<in>set (contacts db0). created_at r < t1"
    and clock: "t1 < t2" "t2 < t3"
    and A: "db1 = snd (post_contacts None t1 a db0)"
    and B: "db2 = snd (post_contacts None t2 b db1)"
    and C: "db3 = snd (post_contacts None t3 c db2)"
  shows "get_contacts None db3 =
     (\<lparr>code = 0, msg = None,
       data = Some (Rows (stored db2 t3 c # stored db1 t2 b # stored db0 t1 a #
                          sort_key (\<lambda>r. - int (created_at r)) (contacts db0)))\<rparr>, db3)"
proof -
  have rows: "contacts db3 = contacts db0 @ [stored db0 t1 a, stored db1 t2 b, stored db2 t3 c]"
    using valid by (simp add: A B C post_contacts_ok)
  have "sort_key (\<lambda>r. - int (created_at r))
          (contacts db0 @ [stored db0 t1 a, stored db1 t2 b, stored db2 t3 c]) =
        stored db2 t3 c # stored db1 t2 b # stored db0 t1 a #
          sort_key (\<lambda>r. - int (created_at r)) (contacts db0)"
    using older clock by (intro sort_three_then_older) (simp_all add: new_row_def)
  then show ?thesis
    by (simp add: get_contacts_ok rows)
qed

text \<open>John, Jane and Joe created at the seconds 100, 101 and 102 of an empty table.\<close>

theorem list_most_recent_first_witness:
  "get_contacts None
     (snd (post_contacts None 102 joe
       (snd (post_contacts None 101 jane
         (snd (post_contacts None 100 john empty_db)))))) =
   (\<lparr>code = 0, msg = None,
     data = Some (Rows
       [\<lparr>cid = 3, cname = SText ''Joe'', cphone = SText ''789'', cemail = SNull,
          caddress = SNull, created_at = 102\<rparr>,
        \<lparr>cid = 2, cname = SText ''Jane'', cphone = SText ''456'',
          cemail = SText ''jane@example.com'', caddress = SNull, created_at = 101\<rparr>,
        \<lparr>cid = 1, cname = SText ''John'', cphone = SText ''123'', cemail = SNull,
          caddress = SNull, created_at = 100\<rparr>])\<rparr>,
    snd (post_contacts None 102 joe
       (snd (post_contacts None 101 jane
         (snd (post_contacts None 100 john empty_db))))))"
  using list_most_recent_first [of john jane joe empty_db 100 101 102,
      OF _ _ _ _ _ _ _ _ _ refl refl refl]
  by (simp add: sample_defs post_contacts_ok store_defs or_null_def)

text \<open>
  The claim as stated fails when the three creates fall into one second: the keys are
  equal, and the list returns John, Jane, Joe, the oldest first.
\<close>

theorem list_same_second_counterexample:
  "data (fst (get_contacts None same_second_db)) =
     Some (Rows
       [\<lparr>cid = 1, cname = SText ''John'', cphone = SText ''123'', cemail = SNull,
          caddress = SNull, created_at = 100\<rparr>,
        \<lparr>cid = 2, cname = SText ''Jane'', cphone = SText ''456'',
          cemail = SText ''jane@example.com'', caddress = SNull, created_at = 100\<rparr>,
        \<lparr>cid = 3, cname = SText ''Joe'', cphone = SText ''789'', cemail = SNull,
          caddress = SNull, created_at = 100\<rparr>]) \<and>
   data (fst (get_contacts None same_second_db)) \<noteq>
     Some (Rows
       [\<lparr>cid = 3, cname = SText ''Joe'', cphone = SText ''789'', cemail = SNull,
          caddress = SNull, created_at = 100\<rparr>,
        \<lparr>cid = 2, cname = SText ''Jane'', cphone = SText ''456'',
          cemail = SText ''jane@example.com'', caddress = SNull, created_at = 100\<rparr>,
        \<lparr>cid = 1, cname = SText ''John'', cphone = SText ''123'', cemail = SNull,
          caddress = SNull, created_at = 100\<rparr>])"
  by (simp add: same_second_db_def sample_defs post_contacts_ok get_contacts_ok store_defs
      or_null_def)

section \<open>Validation before storage\<close>

text \<open>
  Claim C3: a create or update request whose name or phone is missing or the empty string
  gets the validation failure with code 1, whatever the storage call would have done
  (also had it thrown), and the stored rows are the same after it.
\<close>

theorem validation_short_circuits:
  assumes "name b = JUndefined \<or> name b = JStr [] \<or> phone b = JUndefined \<or> phone b = JStr []"
  shows "post_contacts fault now b db =
           (\<lparr>code = 1, msg = Some ''Required field is missing'', data = None\<rparr>, db) \<and>
         put_contact co fault i b db =
           (\<lparr>code = 1, msg = Some ''Required field is missing'', data = None\<rparr>, db)"
proof -
  from assms have "\<not> truthy (name b) \<or> \<not> truthy (phone b)"
    by auto
  then show ?thesis
    by (simp only: post_contacts_invalid put_contact_invalid)
qed

theorem validation_short_circuits_witness:
  "post_contacts (Some ''disk I/O error'') 100 no_name one_contact_db =
     (\<lparr>code = 1, msg = Some ''Required field is missing'', data = None\<rparr>, one_contact_db) \<and>
   put_contact decimal_rowid (Some ''disk I/O error'') ''1'' no_name one_contact_db =
     (\<lparr>code = 1, msg = Some ''Required field is missing'', data = None\<rparr>, one_contact_db)"
  using validation_short_circuits [of no_name "Some ''disk I/O error''" 100 one_contact_db
      decimal_rowid "''1''"]
  by (simp add: no_name_def)

section \<open>An identifier that matches no row\<close>

text \<open>
  Claim C4, amended: for every get or delete request, and for every update request whose
  name and phone pass the validation, with a numeric identifier that matches no stored
  row and a storage call that does not throw, the answer is the not-found failure with
  code 2 and the stored rows are unchanged; for get and delete the identifier is part of
  the message.
\<close>

theorem missing_row_not_found:
  assumes "\<not> isNaN i" and "filter (matches co i) (contacts db) = []"
  shows "get_contact co None i db =
           (\<lparr>code = 2, msg = Some (''Contact not found (ID: '' @ i @ '')''), data = None\<rparr>, db) \<and>
         delete_contact co None i db =
           (\<lparr>code = 2, msg = Some (''Contact not found (ID: '' @ i @ '')''), data = None\<rparr>, db) \<and>
         (truthy (name b) \<and> truthy (phone b) \<longrightarrow>
            put_contact co None i b db =
              (\<lparr>code = 2, msg = Some ''Contact not found'', data = None\<rparr>, db))"
  using assms
  by (simp add: get_contact_missing delete_contact_missing put_contact_missing)

theorem missing_row_not_found_witness:
  "get_contact decimal_rowid None ''999'' one_contact_db =
     (\<lparr>code = 2, msg = Some ''Contact not found (ID: 999)'', data = None\<rparr>, one_contact_db) \<and>
   delete_contact decimal_rowid None ''999'' one_contact_db =
     (\<lparr>code = 2, msg = Some ''Contact not found (ID: 999)'', data = None\<rparr>, one_contact_db) \<and>
   put_contact decimal_rowid None ''999'' jane one_contact_db =
     (\<lparr>code = 2, msg = Some ''Contact not found'', data = None\<rparr>, one_contact_db)"
proof -
  have numeric: "\<not> isNaN ''999''"
    by (simp add: isNaN_defs)
  have missing: "filter (matches decimal_rowid ''999'') (contacts one_contact_db) = []"
    by (simp add: sample_defs post_contacts_ok store_defs isNaN_defs)
  from missing_row_not_found [OF numeric missing, of jane] show ?thesis
    by (simp add: jane_def)
qed

text \<open>
  The claim as stated fails for an update whose body does not pass the validation: the
  identifier 999 is numeric and matches no row, and the answer is the validation failure
  with code 1.
\<close>

theorem put_contact_invalid_body_counterexample:
  "\<not> isNaN ''999'' \<and>
   filter (matches decimal_rowid ''999'') (contacts one_contact_db) = [] \<and>
   put_contact decimal_rowid None ''999'' no_name one_contact_db =
     (\<lparr>code = 1, msg = Some ''Required field is missing'', data = None\<rparr>, one_contact_db)"
  by (simp add: isNaN_defs put_contact_invalid sample_defs post_contacts_ok store_defs)

section \<open>Storage exceptions\<close>

text \<open>
  Claim C5, amended: when the storage call throws, the create and the update handler
  answer with a validation failure (code 1) if the message of the exception contains
  \<open>UNIQUE constraint failed\<close> and with a database failure (code 3) otherwise; the list
  handler answers every exception with a database failure (code 3); the get and the
  delete handler answer with a validation failure (code 1) if the identifier is not
  numeric and with a database failure (code 3) otherwise, whatever the message. No
  handler changes the stored rows then.
\<close>

theorem storage_exception_translation:
  "get_contacts (Some m) db =
     (\<lparr>code = 3, msg = Some ''Failed to retrieve data'', data = None\<rparr>, db) \<and>
   get_contact co (Some m) i db =
     (if isNaN i then \<lparr>code = 1, msg = Some ''Invalid contact ID provided'', data = None\<rparr>
      else \<lparr>code = 3, msg = Some ''Failed to retrieve data'', data = None\<rparr>, db) \<and>
   delete_contact co (Some m) i db =
     (if isNaN i then \<lparr>code = 1, msg = Some ''Invalid contact ID provided'', data = None\<rparr>
      else \<lparr>code = 3, msg = Some ''Failed to delete data'', data = None\<rparr>, db) \<and>
   (truthy (name b) \<and> truthy (phone b) \<longrightarrow>
      post_contacts (Some m) now b db =
        (if unique_violation (Exn m)
         then \<lparr>code = 1, msg = Some ''Email already exists in the system'', data = None\<rparr>
         else \<lparr>code = 3, msg = Some ''Failed to save data'', data = None\<rparr>, db) \<and>
      put_contact co (Some m) i b db =
        (if unique_violation (Exn m)
         then \<lparr>code = 1, msg = Some ''Email already exists in the system'', data = None\<rparr>
         else \<lparr>code = 3, msg = Some ''Failed to update data'', data = None\<rparr>, db))"
  by (simp add: get_contacts_def get_contact_def delete_contact_def post_contacts_def
      put_contact_def validateContactInput_def select_all_def select_by_id_def delete_row_def
      insert_row_def update_row_def sendResponse_def code_defs msg_defs)

theorem storage_exception_translation_witness:
  "get_contacts (Some ''disk I/O error'') one_contact_db =
     (\<lparr>code = 3, msg = Some ''Failed to retrieve data'', data = None\<rparr>, one_contact_db) \<and>
   get_contact decimal_rowid (Some ''disk I/O error'') ''abc'' one_contact_db =
     (\<lparr>code = 1, msg = Some ''Invalid contact ID provided'', data = None\<rparr>, one_contact_db) \<and>
   delete_contact decimal_rowid (Some ''disk I/O error'') ''1'' one_contact_db =
     (\<lparr>code = 3, msg = Some ''Failed to delete data'', data = None\<rparr>, one_contact_db) \<and>
   post_contacts (Some ''UNIQUE constraint failed: contacts.email'') 100 jane one_contact_db =
     (\<lparr>code = 1, msg = Some ''Email already exists in the system'', data = None\<rparr>,
      one_contact_db) \<and>
   put_contact decimal_rowid (Some ''disk I/O error'') ''1'' jane one_contact_db =
     (\<lparr>code = 3, msg = Some ''Failed to update data'', data = None\<rparr>, one_contact_db)"
  using storage_exception_translation [of "''disk I/O error''" one_contact_db decimal_rowid
      "''abc''" jane 100]
    storage_exception_translation [of "''disk I/O error''" one_contact_db decimal_rowid
      "''1''" jane 100]
    storage_exception_translation [of "''UNIQUE constraint failed: contacts.email''"
      one_contact_db decimal_rowid "''1''" jane 100]
  by (simp add: jane_def isNaN_defs unique_violation_def)

text \<open>
  The claim as stated fails for the list handler: an exception whose message tells a
  uniqueness violation is answered with the database failure, code 3.
\<close>

theorem get_contacts_unique_violation_counterexample:
  "unique_violation (Exn ''UNIQUE constraint failed: contacts.email'') \<and>
   get_contacts (Some ''UNIQUE constraint failed: contacts.email'') one_contact_db =
     (\<lparr>code = 3, msg = Some ''Failed to retrieve data'', data = None\<rparr>, one_contact_db)"
  by (simp add: unique_violation_def get_contacts_def select_all_def sendResponse_def
      code_defs msg_defs)

section \<open>The payload of a create\<close>

text \<open>
  Claim C6, amended: for every create with a valid name and phone whose storage call does
  not throw, the response has code 0 and the message \<open>Contact created successfully\<close>, and
  its payload is the object built from the identifier that the store assigned, the
  submitted name and phone, and the submitted email and address, each replaced by
  \<open>null\<close> when absent or empty; the payload has no creation time. The row inserted has
  these values and the second of the insertion.
\<close>

theorem post_contacts_payload:
  assumes "truthy (name b)" and "truthy (phone b)"
  shows "fst (post_contacts None now b db) =
           \<lparr>code = 0, msg = Some ''Contact created successfully'',
            data = Some (Obj [(''id'', JNum (next_rowid db)),
                              (''name'', name b),
                              (''phone'', phone b),
                              (''email'', if truthy (email b) then email b else JNull),
                              (''address'', if truthy (address b) then address b else JNull)])\<rparr> \<and>
         data_field ''created_at'' (fst (post_contacts None now b db)) = None \<and>
         contacts (snd (post_contacts None now b db)) =
           contacts db @
             [\<lparr>cid = next_rowid db, cname = bind (name b), cphone = bind (phone b),
               cemail = bind (if truthy (email b) then email b else JNull),
               caddress = bind (if truthy (address b) then address b else JNull),
               created_at = now\<rparr>]"
  using assms
  by (simp add: post_contacts_ok data_field_def or_null_def new_row_def)

theorem post_contacts_payload_witness:
  "fst (post_contacts None 101 jane one_contact_db) =
           \<lparr>code = 0, msg = Some ''Contact created successfully'',
            data = Some (Obj [(''id'', JNum 2),
                              (''name'', JStr ''Jane''),
                              (''phone'', JStr ''456''),
                              (''email'', JStr ''jane@example.com''),
                              (''address'', JNull)])\<rparr> \<and>
   data_field ''created_at'' (fst (post_contacts None 101 jane one_contact_db)) = None"
  using post_contacts_payload [of jane 101 one_contact_db]
  by (simp add: sample_defs post_contacts_ok store_defs or_null_def)

text \<open>
  The claim as stated fails: the payload of a successful create has the fields id, name,
  phone, email and address, and no creation time, which the row of the store has.
\<close>

theorem post_contacts_no_timestamp_counterexample:
  "post_contacts None 100 john empty_db =
     (\<lparr>code = 0, msg = Some ''Contact created successfully'',
       data = Some (Obj [(''id'', JNum 1), (''name'', JStr ''John''), (''phone'', JStr ''123''),
                         (''email'', JNull), (''address'', JNull)])\<rparr>,
      \<lparr>contacts = [\<lparr>cid = 1, cname = SText ''John'', cphone = SText ''123'', cemail = SNull,
                      caddress = SNull, created_at = 100\<rparr>],
       seq = 1\<rparr>) \<and>
   data_field ''created_at'' (fst (post_contacts None 100 john empty_db)) = None"
  by (simp add: post_contacts_ok sample_defs store_defs or_null_def data_field_def)

section \<open>Updating twice\<close>

text \<open>
  Claim C7: for an identifier that matches a stored row and a body whose name and phone
  are valid, the update succeeds, and the same update applied to the database it leaves
  returns the same success response and leaves the same database.
\<close>

theorem update_idempotent:
  assumes "truthy (name b)" and "truthy (phone b)"
    and "filter (matches co i) (contacts db) \<noteq> []"
  shows "code (fst (put_contact co None i b db)) = 0 \<and>
         put_contact co None i b (snd (put_contact co None i b db)) = put_contact co None i b db"
proof -
  let ?upd = "\<lambda>c. if matches co i c
                   then c\<lparr>cname := bind (name b), cphone := bind (phone b),
                          cemail := bind (or_null (email b)),
                          caddress := bind (or_null (address b))\<rparr>
                   else c"
  let ?db' = "db\<lparr>contacts := map ?upd (contacts db)\<rparr>"
  have first: "put_contact co None i b db =
     (\<lparr>code = 0, msg = Some ''Contact updated successfully'',
       data = Some (Obj [(''id'', JStr i), (''name'', name b),
                         (''phone'', phone b), (''email'', or_null (email b)),
                         (''address'', or_null (address b))])\<rparr>, ?db')"
    using assms by (rule put_contact_ok)
  have same_match: "matches co i (?upd c) = matches co i c" for c
    by (simp add: matches_def)
  have "filter (matches co i) (map ?upd (contacts db)) =
        map ?upd (filter (matches co i) (contacts db))"
    by (simp add: filter_map comp_def same_match)
  with assms(3) have still: "filter (matches co i) (contacts ?db') \<noteq> []"
    by simp
  have again: "map ?upd (map ?upd (contacts db)) = map ?upd (contacts db)"
    by (simp add: matches_def)
  have second: "put_contact co None i b ?db' =
     (\<lparr>code = 0, msg = Some ''Contact updated successfully'',
       data = Some (Obj [(''id'', JStr i), (''name'', name b),
                         (''phone'', phone b), (''email'', or_null (email b)),
                         (''address'', or_null (address b))])\<rparr>, ?db')"
    using put_contact_ok [OF assms(1,2) still] again by simp
  show ?thesis
    by (simp add: first second)
qed

theorem update_idempotent_witness:
  "code (fst (put_contact decimal_rowid None ''1'' jane one_contact_db)) = 0 \<and>
   put_contact decimal_rowid None ''1'' jane
     (snd (put_contact decimal_rowid None ''1'' jane one_contact_db)) =
   put_contact decimal_rowid None ''1'' jane one_contact_db \<and>
   contacts (snd (put_contact decimal_rowid None ''1'' jane one_contact_db)) =
     [\<lparr>cid = 1, cname = SText ''Jane'', cphone = SText ''456'',
       cemail = SText ''jane@example.com'', caddress = SNull, created_at = 100\<rparr>]"
proof -
  have found: "filter (matches decimal_rowid ''1'') (contacts one_contact_db) \<noteq> []"
    by (simp add: sample_defs post_contacts_ok store_defs isNaN_defs)
  have valid: "truthy (name jane)" "truthy (phone jane)"
    by (simp_all add: jane_def)
  have "contacts (snd (put_contact decimal_rowid None ''1'' jane one_contact_db)) =
     [\<lparr>cid = 1, cname = SText ''Jane'', cphone = SText ''456'',
       cemail = SText ''jane@example.com'', caddress = SNull, created_at = 100\<rparr>]"
    by (simp add: put_contact_ok [OF valid found])
      (simp add: sample_defs post_contacts_ok store_defs isNaN_defs or_null_def)
  with update_idempotent [OF valid found] show ?thesis
    by simp
qed

section \<open>The fields of the envelope\<close>

lemma get_contacts_envelope:
  "(data (fst (get_contacts fault db)) \<noteq> None) = (code (fst (get_contacts fault db)) = 0) \<and>
   (code (fst (get_contacts fault db)) = 0 \<longrightarrow> msg (fst (get_contacts fault db)) = None)"
  by (cases fault) (simp_all add: get_contacts_def select_all_def sendResponse_def code_defs)

lemma get_contact_envelope:
  "(data (fst (get_contact co fault i db)) \<noteq> None) = (code (fst (get_contact co fault i db)) = 0) \<and>
   (code (fst (get_contact co fault i db)) = 0 \<longrightarrow> msg (fst (get_contact co fault i db)) = None)"
  by (cases fault; cases "find (matches co i) (contacts db)")
    (simp_all add: get_contact_def select_by_id_def sendResponse_def code_defs)

lemma post_contacts_envelope:
  "(data (fst (post_contacts fault now b db)) \<noteq> None) =
     (code (fst (post_contacts fault now b db)) = 0) \<and>
   (code (fst (post_contacts fault now b db)) = 0 \<longrightarrow>
      msg (fst (post_contacts fault now b db)) = Some ''Contact created successfully'')"
  by (cases fault)
    (simp_all add: post_contacts_def validateContactInput_def insert_row_def sendResponse_def
      code_defs msg_defs)

lemma put_contact_envelope:
  "(data (fst (put_contact co fault i b db)) \<noteq> None) =
     (code (fst (put_contact co fault i b db)) = 0) \<and>
   (code (fst (put_contact co fault i b db)) = 0 \<longrightarrow>
      msg (fst (put_contact co fault i b db)) = Some ''Contact updated successfully'')"
  by (cases fault)
    (simp_all add: put_contact_def validateContactInput_def update_row_def sendResponse_def
      code_defs msg_defs)

lemma delete_contact_envelope:
  "data (fst (delete_contact co fault i db)) = None \<and>
   (code (fst (delete_contact co fault i db)) = 0 \<longrightarrow>
      msg (fst (delete_contact co fault i db)) = Some ''Contact deleted successfully'')"
  by (cases fault)
    (simp_all add: delete_contact_def delete_row_def sendResponse_def code_defs msg_defs)

text \<open>
  Claim C8: the health and the delete response never have a field \<open>data\<close>; the response
  of list, get, create and update has it exactly when the operation succeeds (code 0),
  and the list of a table without rows has the empty array; on success \<open>msg\<close> is
  \<open>null\<close> for list and get, and a text for create, update and delete.
\<close>

theorem envelope_data_and_msg:
  "get_health = \<lparr>code = 0, msg = None, data = None\<rparr> \<and>
   data (fst (delete_contact co fault i db)) = None \<and>
   (code (fst (delete_contact co fault i db)) = 0 \<longrightarrow>
      msg (fst (delete_contact co fault i db)) = Some ''Contact deleted successfully'') \<and>
   (data (fst (get_contacts fault db)) \<noteq> None) = (code (fst (get_contacts fault db)) = 0) \<and>
   (code (fst (get_contacts fault db)) = 0 \<longrightarrow> msg (fst (get_contacts fault db)) = None) \<and>
   (contacts db = [] \<longrightarrow> data (fst (get_contacts None db)) = Some (Rows [])) \<and>
   (data (fst (get_contact co fault i db)) \<noteq> None) = (code (fst (get_contact co fault i db)) = 0) \<and>
   (code (fst (get_contact co fault i db)) = 0 \<longrightarrow> msg (fst (get_contact co fault i db)) = None) \<and>
   (data (fst (post_contacts fault now b db)) \<noteq> None) =
     (code (fst (post_contacts fault now b db)) = 0) \<and>
   (code (fst (post_contacts fault now b db)) = 0 \<longrightarrow>
      msg (fst (post_contacts fault now b db)) = Some ''Contact created successfully'') \<and>
   (data (fst (put_contact co fault i b db)) \<noteq> None) =
     (code (fst (put_contact co fault i b db)) = 0) \<and>
   (code (fst (put_contact co fault i b db)) = 0 \<longrightarrow>
      msg (fst (put_contact co fault i b db)) = Some ''Contact updated successfully'')"
proof -
  have health: "get_health = \<lparr>code = 0, msg = None, data = None\<rparr>"
    by (simp add: get_health_def sendResponse_def code_defs)
  have empty: "contacts db = [] \<longrightarrow> data (fst (get_contacts None db)) = Some (Rows [])"
    by (simp add: get_contacts_ok)
  show ?thesis
    using health empty get_contacts_envelope [of fault db] get_contact_envelope [of co fault i db]
      post_contacts_envelope [of fault now b db] put_contact_envelope [of co fault i b db]
      delete_contact_envelope [of co fault i db]
    by blast
qed

theorem envelope_data_and_msg_witness:
  "data (fst (delete_contact decimal_rowid None ''1'' one_contact_db)) = None \<and>
   msg (fst (delete_contact decimal_rowid None ''1'' one_contact_db)) =
     Some ''Contact deleted successfully'' \<and>
   fst (get_contacts None empty_db) = \<lparr>code = 0, msg = None, data = Some (Rows [])\<rparr> \<and>
   data (fst (get_contact decimal_rowid None ''1'' one_contact_db)) \<noteq> None \<and>
   msg (fst (get_contact decimal_rowid None ''1'' one_contact_db)) = None \<and>
   data (fst (post_contacts None 101 jane one_contact_db)) \<noteq> None \<and>
   msg (fst (post_contacts None 101 jane one_contact_db)) = Some ''Contact created successfully'' \<and>
   data (fst (put_contact decimal_rowid None ''1'' jane one_contact_db)) \<noteq> None \<and>
   msg (fst (put_contact decimal_rowid None ''1'' jane one_contact_db)) =
     Some ''Contact updated successfully''"
proof -
  have codes:
    "code (fst (delete_contact decimal_rowid None ''1'' one_contact_db)) = 0"
    "code (fst (get_contact decimal_rowid None ''1'' one_contact_db)) = 0"
    "code (fst (post_contacts None 101 jane one_contact_db)) = 0"
    "code (fst (put_contact decimal_rowid None ''1'' jane one_contact_db)) = 0"
    by (simp_all add: sample_defs handler_defs store_defs code_defs isNaN_defs)
  have list: "fst (get_contacts None empty_db) = \<lparr>code = 0, msg = None, data = Some (Rows [])\<rparr>"
    by (simp add: get_contacts_ok empty_db_def)
  show ?thesis
    using codes list envelope_data_and_msg [of decimal_rowid None "''1''" one_contact_db 101 jane]
    by simp
qed

section \<open>Optional fields\<close>

text \<open>
  Claim C9: when a create or an update with a valid name and phone has an email (an
  address) that is absent or the empty string, the value written to the row is NULL and
  the value in the payload of the response is \<open>null\<close>. The create writes the last row of
  the table; the update writes every row that the identifier matches.
\<close>

theorem absent_optional_fields_are_null:
  assumes "truthy (name b)" and "truthy (phone b)"
  shows "(email b = JUndefined \<or> email b = JStr [] \<longrightarrow>
            cemail (last (contacts (snd (post_contacts None now b db)))) = SNull \<and>
            data_field ''email'' (fst (post_contacts None now b db)) = Some JNull \<and>
            (\<forall>c\<in>set (contacts (snd (put_contact co None i b db))).
               matches co i c \<longrightarrow> cemail c = SNull) \<and>
            (code (fst (put_contact co None i b db)) = 0 \<longrightarrow>
               data_field ''email'' (fst (put_contact co None i b db)) = Some JNull)) \<and>
         (address b = JUndefined \<or> address b = JStr [] \<longrightarrow>
            caddress (last (contacts (snd (post_contacts None now b db)))) = SNull \<and>
            data_field ''address'' (fst (post_contacts None now b db)) = Some JNull \<and>
            (\<forall>c\<in>set (contacts (snd (put_contact co None i b db))).
               matches co i c \<longrightarrow> caddress c = SNull) \<and>
            (code (fst (put_contact co None i b db)) = 0 \<longrightarrow>
               data_field ''address'' (fst (put_contact co None i b db)) = Some JNull))"
proof (cases "filter (matches co i) (contacts db) = []")
  case True
  then have none: "\<forall>c\<in>set (contacts db). \<not> matches co i c"
    by (simp add: filter_empty_conv)
  show ?thesis
    using assms none
    by (auto simp add: post_contacts_ok put_contact_missing [OF assms True] data_field_def
        or_null_def new_row_def)
next
  case False
  show ?thesis
    using assms
    by (auto simp add: post_contacts_ok put_contact_ok [OF assms False] data_field_def
        or_null_def new_row_def matches_def)
qed

theorem absent_optional_fields_are_null_witness:
  "cemail (last (contacts (snd (post_contacts None 101 joe one_contact_db)))) = SNull \<and>
   data_field ''email'' (fst (post_contacts None 101 joe one_contact_db)) = Some JNull \<and>
   caddress (last (contacts (snd (post_contacts None 101 joe one_contact_db)))) = SNull \<and>
   data_field ''address'' (fst (post_contacts None 101 joe one_contact_db)) = Some JNull \<and>
   contacts (snd (put_contact decimal_rowid None ''1'' joe one_contact_db)) =
     [\<lparr>cid = 1, cname = SText ''Joe'', cphone = SText ''789'', cemail = SNull,
       caddress = SNull, created_at = 100\<rparr>] \<and>
   data_field ''email'' (fst (put_contact decimal_rowid None ''1'' joe one_contact_db)) = Some JNull \<and>
   data_field ''address'' (fst (put_contact decimal_rowid None ''1'' joe one_contact_db)) = Some JNull"
proof -
  have valid: "truthy (name joe)" "truthy (phone joe)"
    by (simp_all add: joe_def)
  have absent: "email joe = JStr []" "address joe = JUndefined"
    by (simp_all add: joe_def)
  have put: "code (fst (put_contact decimal_rowid None ''1'' joe one_contact_db)) = 0"
    "contacts (snd (put_contact decimal_rowid None ''1'' joe one_contact_db)) =
     [\<lparr>cid = 1, cname = SText ''Joe'', cphone = SText ''789'', cemail = SNull,
       caddress = SNull, created_at = 100\<rparr>]"
    by (simp_all add: sample_defs handler_defs store_defs code_defs isNaN_defs)
  show ?thesis
    using absent put
      absent_optional_fields_are_null [OF valid, of 101 one_contact_db decimal_rowid "''1''"]
    by simp
qed

section \<open>The identifier in the payload\<close>

text \<open>
  Claim C10: the payload of a successful create has as its id the integer that the store
  assigned to the new row, a number; the payload of a successful update has as its id
  the path parameter as it was received, a string.
\<close>

theorem payload_id_types:
  assumes "truthy (name b)" and "truthy (phone b)"
  shows "data_field ''id'' (fst (post_contacts None now b db)) = Some (JNum (next_rowid db)) \<and>
         cid (last (contacts (snd (post_contacts None now b db)))) = next_rowid db \<and>
         (filter (matches co i) (contacts db) \<noteq> [] \<longrightarrow>
            data_field ''id'' (fst (put_contact co None i b db)) = Some (JStr i))"
  using assms
  by (simp add: post_contacts_ok put_contact_ok data_field_def new_row_def)

theorem payload_id_types_witness:
  "data_field ''id'' (fst (post_contacts None 100 john empty_db)) = Some (JNum 1) \<and>
   data_field ''id'' (fst (put_contact decimal_rowid None ''1'' jane one_contact_db)) =
     Some (JStr ''1'')"
proof -
  have valid: "truthy (name john)" "truthy (phone john)" "truthy (name jane)" "truthy (phone jane)"
    by (simp_all add: john_def jane_def)
  have found: "filter (matches decimal_rowid ''1'') (contacts one_contact_db) \<noteq> []"
    by (simp add: sample_defs post_contacts_ok store_defs isNaN_defs)
  show ?thesis
    using payload_id_types [OF valid(1,2), of 100 empty_db decimal_rowid "''1''"]
      payload_id_types [OF valid(3,4), of 101 one_contact_db decimal_rowid "''1''"] found
    by (simp add: empty_db_def next_rowid_def)
qed

end
